theory Spec2Isabelle
  imports Main
begin

section \<open>JSON values and objects\<close>

text \<open>
  The bridge and its command handlers exchange \<^verbatim>\<open>FJsonObject\<close> values and JSON text.
  A JSON value is modelled as a datatype; a number keeps its literal text, because no
  function modelled here computes with numbers. An object is a list of fields in
  insertion order with unique keys, as \<^verbatim>\<open>SetField\<close> maintains it.
\<close>

datatype json =
    JNull
  | JBool bool
  | JNumber string
  | JString string
  | JArray "json list"
  | JObject "(string \<times> json) list"

type_synonym json_obj = "(string \<times> json) list"

fun SetField :: "json_obj \<Rightarrow> string \<Rightarrow> json \<Rightarrow> json_obj" where
  "SetField [] k v = [(k, v)]"
| "SetField ((k', v') # fs) k v =
     (if k' = k then (k, v) # fs else (k', v') # SetField fs k v)"

definition SetStringField :: "json_obj \<Rightarrow> string \<Rightarrow> string \<Rightarrow> json_obj" where
  "SetStringField obj k s = SetField obj k (JString s)"

definition SetObjectField :: "json_obj \<Rightarrow> string \<Rightarrow> json_obj \<Rightarrow> json_obj" where
  "SetObjectField obj k v = SetField obj k (JObject v)"

definition HasField :: "json_obj \<Rightarrow> string \<Rightarrow> bool" where
  "HasField obj k = (map_of obj k \<noteq> None)"

text \<open>
  \<^verbatim>\<open>GetBoolField\<close> and \<^verbatim>\<open>GetStringField\<close> belong to the engine's JSON library. On a
  field of the requested type they return its value. What they make of a field of another
  type is the library's coercion, which is taken as a parameter (\<open>as_bool\<close>, \<open>as_string\<close>).
  The bridge calls both only after \<^verbatim>\<open>HasField\<close> has answered true.
\<close>

definition GetBoolField :: "(json \<Rightarrow> bool) \<Rightarrow> json_obj \<Rightarrow> string \<Rightarrow> bool" where
  "GetBoolField as_bool obj k =
     (case map_of obj k of
        Some (JBool b) \<Rightarrow> b
      | Some v \<Rightarrow> as_bool v
      | None \<Rightarrow> as_bool JNull)"

definition GetStringField :: "(json \<Rightarrow> string) \<Rightarrow> json_obj \<Rightarrow> string \<Rightarrow> string" where
  "GetStringField as_string obj k =
     (case map_of obj k of
        Some (JString s) \<Rightarrow> s
      | Some v \<Rightarrow> as_string v
      | None \<Rightarrow> as_string JNull)"

subsection \<open>Reading JSON text\<close>

text \<open>
  \<^verbatim>\<open>FJsonSerializer::Deserialize\<close> is engine code. It is modelled by a reader for the JSON
  grammar: whitespace, the three literals, numbers, string literals with their escapes,
  arrays and objects. The reader counts down a fuel that bounds the number of values
  and members it reads; \<open>Deserialize\<close> starts it with more fuel than the text has
  characters. A text that is not one JSON object leaves the out-parameter null, which is
  \<open>None\<close> here.
\<close>

definition is_ws :: "char \<Rightarrow> bool" where
  "is_ws c = (c = CHR '' '' \<or> c = CHR 0x09 \<or> c = CHR 0x0A \<or> c = CHR 0x0D)"

definition skip_ws :: "string \<Rightarrow> string" where
  "skip_ws s = dropWhile is_ws s"

definition hex_digit :: "char \<Rightarrow> nat option" where
  "hex_digit c =
     (let n = of_char c :: nat in
      if 48 \<le> n \<and> n \<le> 57 then Some (n - 48)
      else if 65 \<le> n \<and> n \<le> 70 then Some (n - 55)
      else if 97 \<le> n \<and> n \<le> 102 then Some (n - 87)
      else None)"

definition unescape :: "char \<Rightarrow> char option" where
  "unescape c =
     (if c = CHR 0x22 then Some (CHR 0x22)
      else if c = CHR 0x5C then Some (CHR 0x5C)
      else if c = CHR ''/'' then Some (CHR ''/'')
      else if c = CHR ''b'' then Some (CHR 0x08)
      else if c = CHR ''f'' then Some (CHR 0x0C)
      else if c = CHR ''n'' then Some (CHR 0x0A)
      else if c = CHR ''r'' then Some (CHR 0x0D)
      else if c = CHR ''t'' then Some (CHR 0x09)
      else None)"

text \<open>
  \<open>read_string acc s\<close> reads a string literal whose opening quote has been consumed and
  returns its value and the text after the closing quote. A \<^verbatim>\<open>\u\<close> escape gives the
  character of that code, cut to the eight bits of \<^typ>\<open>char\<close>.
\<close>

fun read_string :: "string \<Rightarrow> string \<Rightarrow> (string \<times> string) option" where
  "read_string acc [] = None"
| "read_string acc [c] = (if c = CHR 0x22 then Some (rev acc, []) else None)"
| "read_string acc (c # e # cs) =
     (if c = CHR 0x22 then Some (rev acc, e # cs)
      else if c = CHR 0x5C then
        (if e = CHR ''u'' then
           (case map hex_digit (take 4 cs) of
              [Some a, Some b, Some c', Some d] \<Rightarrow>
                read_string (char_of (((a * 16 + b) * 16 + c') * 16 + d) # acc) (drop 4 cs)
            | _ \<Rightarrow> None)
         else
           (case unescape e of
              Some x \<Rightarrow> read_string (x # acc) cs
            | None \<Rightarrow> None))
      else read_string (c # acc) (e # cs))"

definition is_number_char :: "char \<Rightarrow> bool" where
  "is_number_char c = (c \<in> set ''0123456789+-.eE'')"

definition read_number :: "string \<Rightarrow> (json \<times> string) option" where
  "read_number s =
     (case takeWhile is_number_char s of
        [] \<Rightarrow> None
      | c # cs \<Rightarrow>
          if c = CHR ''-'' \<or> c \<in> set ''0123456789''
          then Some (JNumber (c # cs), dropWhile is_number_char s)
          else None)"

definition read_literal :: "string \<Rightarrow> (json \<times> string) option" where
  "read_literal s =
     (if take 4 s = ''true'' then Some (JBool True, drop 4 s)
      else if take 5 s = ''false'' then Some (JBool False, drop 5 s)
      else if take 4 s = ''null'' then Some (JNull, drop 4 s)
      else read_number s)"

fun read_value :: "nat \<Rightarrow> string \<Rightarrow> (json \<times> string) option"
  and read_members :: "nat \<Rightarrow> json_obj \<Rightarrow> string \<Rightarrow> (json_obj \<times> string) option"
  and read_elements :: "nat \<Rightarrow> json list \<Rightarrow> string \<Rightarrow> (json list \<times> string) option"
where
  "read_value 0 s = None"
| "read_value (Suc n) s =
     (case skip_ws s of
        [] \<Rightarrow> None
      | c # cs \<Rightarrow>
          if c = CHR ''{'' then
            (case skip_ws cs of
               [] \<Rightarrow> None
             | d # ds \<Rightarrow>
                 if d = CHR ''}'' then Some (JObject [], ds)
                 else map_option (\<lambda>(fs, r). (JObject fs, r)) (read_members n [] (d # ds)))
          else if c = CHR ''['' then
            (case skip_ws cs of
               [] \<Rightarrow> None
             | d # ds \<Rightarrow>
                 if d = CHR '']'' then Some (JArray [], ds)
                 else map_option (\<lambda>(vs, r). (JArray vs, r)) (read_elements n [] (d # ds)))
          else if c = CHR 0x22 then
            map_option (\<lambda>(v, r). (JString v, r)) (read_string [] cs)
          else read_literal (c # cs))"
| "read_members 0 acc s = None"
| "read_members (Suc n) acc s =
     (case skip_ws s of
        [] \<Rightarrow> None
      | q # cs \<Rightarrow>
          if q \<noteq> CHR 0x22 then None
          else
            (case read_string [] cs of
               None \<Rightarrow> None
             | Some (k, r) \<Rightarrow>
                 (case skip_ws r of
                    [] \<Rightarrow> None
                  | c # r' \<Rightarrow>
                      if c \<noteq> CHR '':'' then None
                      else
                        (case read_value n r' of
                           None \<Rightarrow> None
                         | Some (v, r'') \<Rightarrow>
                             (case skip_ws r'' of
                                [] \<Rightarrow> None
                              | d # r3 \<Rightarrow>
                                  if d = CHR '','' then read_members n (SetField acc k v) r3
                                  else if d = CHR ''}'' then Some (SetField acc k v, r3)
                                  else None)))))"
| "read_elements 0 acc s = None"
| "read_elements (Suc n) acc s =
     (case read_value n s of
        None \<Rightarrow> None
      | Some (v, r) \<Rightarrow>
          (case skip_ws r of
             [] \<Rightarrow> None
           | d # r' \<Rightarrow>
               if d = CHR '','' then read_elements n (acc @ [v]) r'
               else if d = CHR '']'' then Some (acc @ [v], r')
               else None))"

definition Deserialize :: "string \<Rightarrow> json_obj option" where
  "Deserialize s =
     (case read_value (Suc (length s)) s of
        Some (JObject fs, r) \<Rightarrow> if skip_ws r = [] then Some fs else None
      | _ \<Rightarrow> None)"

section \<open>Comparing command names\<close>

text \<open>
  Every test of the command name in the plugin is \<^verbatim>\<open>CommandType == TEXT("...")\<close>, the
  equality of the engine's \<^verbatim>\<open>FString\<close> with a literal, which ignores the case of letters.
  The engine's comparison is modelled for the letters A to Z; \<open>name_in\<close> is a chain of
  such tests joined by \<^verbatim>\<open>||\<close>.
\<close>

definition ToLower :: "char \<Rightarrow> char" where
  "ToLower c =
     (let n = of_char c :: nat in if 65 \<le> n \<and> n \<le> 90 then char_of (n + 32) else c)"

definition FString_equals :: "string \<Rightarrow> string \<Rightarrow> bool" where
  "FString_equals a b = (map ToLower a = map ToLower b)"

fun name_in :: "string \<Rightarrow> string list \<Rightarrow> bool" where
  "name_in c [] = False"
| "name_in c (n # ns) = (FString_equals c n \<or> name_in c ns)"

section \<open>Command families\<close>

text \<open>
  A call into a handler or into the engine either returns a value or throws a
  \<^verbatim>\<open>std::exception\<close>, the exception type that every \<^verbatim>\<open>catch\<close> clause of the plugin
  names; \<open>Throws w\<close> carries what \<^verbatim>\<open>e.what()\<close> returns.
\<close>

datatype 'a call = Returns 'a | Throws string

text \<open>
  The five handler objects that the bridge owns return a shared pointer to an object,
  which may be null (\<open>None\<close>). Their classes are outside this development.
\<close>

datatype handler =
    EditorCommands
  | BlueprintCommands
  | BlueprintNodeCommands
  | ProjectCommands
  | UMGCommands

text \<open>
  The private operations of the six static families. They do the work on the editor's
  assets and levels and return JSON text. \<^verbatim>\<open>LoadAsset\<close> and \<^verbatim>\<open>SaveLevel\<close> are modelled
  below; the others are taken from the environment.
\<close>

datatype operation =
    SaveAsset | DuplicateAsset | DeleteAsset | RenameAsset | MoveAsset
  | ImportAsset | ExportAsset
  | ListAssets | GetAssetMetadata | SearchAssets
  | GetAssetReferences | GetAssetDependencies
  | CreateLevel | LoadLevel | SetLevelVisibility
  | CreateStreamingLevel | LoadStreamingLevel | UnloadStreamingLevel
  | CreateLandscape | ModifyLandscape | PaintLandscapeLayer | GetLandscapeInfo
  | GetCurrentLevelInfo

record engine =
  Serialize :: "json_obj \<Rightarrow> string"
  AsBool :: "json \<Rightarrow> bool"
  AsString :: "json \<Rightarrow> string"
  HandleCommand :: "handler \<Rightarrow> string \<Rightarrow> json_obj \<Rightarrow> json_obj option call"
  Operation :: "operation \<Rightarrow> json_obj \<Rightarrow> string call"
  LoadedAssetClass :: "string \<Rightarrow> string option"
  EditorWorld :: "string option"
  LevelEditorSubsystem :: bool
  SaveCurrentLevel :: "bool call"

text \<open>
  \<open>EditorWorld\<close> is the editor's world, given by its map name, or \<open>None\<close> for a null
  pointer. \<open>LoadedAssetClass\<close> is \<^verbatim>\<open>UEditorAssetLibrary::LoadAsset\<close>: the class name of the
  asset at a path, or \<open>None\<close> when the library returns null. \<open>Serialize\<close> is the engine's
  JSON writer.
\<close>

definition LoadAsset :: "engine \<Rightarrow> json_obj \<Rightarrow> string call" where
  "LoadAsset e Params =
     (let AssetPath = GetStringField (AsString e) Params ''asset_path''
      in case LoadedAssetClass e AssetPath of
           None \<Rightarrow>
             Returns (''{\"success\":false,\"error\":\"Failed to load asset: '' @ AssetPath @ ''\"}'')
         | Some ClassName \<Rightarrow>
             Returns (''{\"success\":true,\"result\":{\"asset_path\":\"'' @ AssetPath
                      @ ''\",\"loaded\":true,\"class\":\"'' @ ClassName @ ''\"}}''))"

definition SaveLevel :: "engine \<Rightarrow> json_obj \<Rightarrow> string call" where
  "SaveLevel e Params =
     (case EditorWorld e of
        None \<Rightarrow> Returns ''{\"success\":false,\"error\":\"No active world found\"}''
      | Some LevelName \<Rightarrow>
          if \<not> LevelEditorSubsystem e
          then Returns ''{\"success\":false,\"error\":\"Failed to get LevelEditorSubsystem\"}''
          else
            (case SaveCurrentLevel e of
               Throws w \<Rightarrow>
                 Returns (''{\"success\":false,\"error\":\"Exception in SaveLevel: '' @ w @ ''\"}'')
             | Returns bSaved \<Rightarrow>
                 if \<not> bSaved
                 then Returns ''{\"success\":false,\"error\":\"Failed to save level\"}''
                 else Returns (''{\"success\":true,\"result\":\"Level saved: '' @ LevelName @ ''\"}'')))"

definition FUnrealMCPAssetCommands_HandleCommand ::
  "engine \<Rightarrow> string \<Rightarrow> json_obj \<Rightarrow> string call" where
  "FUnrealMCPAssetCommands_HandleCommand e CommandType Params =
     (if FString_equals CommandType ''load_asset'' then LoadAsset e Params
      else if FString_equals CommandType ''save_asset'' then Operation e SaveAsset Params
      else if FString_equals CommandType ''duplicate_asset'' then Operation e DuplicateAsset Params
      else if FString_equals CommandType ''delete_asset'' then Operation e DeleteAsset Params
      else if FString_equals CommandType ''rename_asset'' then Operation e RenameAsset Params
      else if FString_equals CommandType ''move_asset'' then Operation e MoveAsset Params
      else if FString_equals CommandType ''import_asset'' then Operation e ImportAsset Params
      else if FString_equals CommandType ''export_asset'' then Operation e ExportAsset Params
      else Returns (''{\"success\":false,\"error\":\"Unknown asset command: '' @ CommandType @ ''\"}''))"

definition FUnrealMCPContentBrowserCommands_HandleCommand ::
  "engine \<Rightarrow> string \<Rightarrow> json_obj \<Rightarrow> string call" where
  "FUnrealMCPContentBrowserCommands_HandleCommand e CommandType Params =
     (if FString_equals CommandType ''list_assets'' then Operation e ListAssets Params
      else if FString_equals CommandType ''get_asset_metadata'' then Operation e GetAssetMetadata Params
      else if FString_equals CommandType ''search_assets'' then Operation e SearchAssets Params
      else Returns (''{\"success\":false,\"error\":\"Unknown content browser command: ''
                    @ CommandType @ ''\"}''))"

definition FUnrealMCPAssetRegistryCommands_HandleCommand ::
  "engine \<Rightarrow> string \<Rightarrow> json_obj \<Rightarrow> string call" where
  "FUnrealMCPAssetRegistryCommands_HandleCommand e CommandType Params =
     (if FString_equals CommandType ''get_asset_references'' then Operation e GetAssetReferences Params
      else if FString_equals CommandType ''get_asset_dependencies'' then Operation e GetAssetDependencies Params
      else Returns (''{\"success\":false,\"error\":\"Unknown asset registry command: ''
                    @ CommandType @ ''\"}''))"

definition FUnrealMCPLevelCommands_HandleCommand ::
  "engine \<Rightarrow> string \<Rightarrow> json_obj \<Rightarrow> string call" where
  "FUnrealMCPLevelCommands_HandleCommand e CommandType Params =
     (if FString_equals CommandType ''create_level'' then Operation e CreateLevel Params
      else if FString_equals CommandType ''save_level'' then SaveLevel e Params
      else if FString_equals CommandType ''load_level'' then Operation e LoadLevel Params
      else if FString_equals CommandType ''set_level_visibility'' then Operation e SetLevelVisibility Params
      else if FString_equals CommandType ''create_streaming_level'' then Operation e CreateStreamingLevel Params
      else if FString_equals CommandType ''load_streaming_level'' then Operation e LoadStreamingLevel Params
      else if FString_equals CommandType ''unload_streaming_level'' then Operation e UnloadStreamingLevel Params
      else Returns ''{\"success\":false,\"error\":\"Unknown level command\"}'')"

definition FUnrealMCPLandscapeCommands_HandleCommand ::
  "engine \<Rightarrow> string \<Rightarrow> json_obj \<Rightarrow> string call" where
  "FUnrealMCPLandscapeCommands_HandleCommand e CommandType Params =
     (if FString_equals CommandType ''create_landscape'' then Operation e CreateLandscape Params
      else if FString_equals CommandType ''modify_landscape'' then Operation e ModifyLandscape Params
      else if FString_equals CommandType ''paint_landscape_layer'' then Operation e PaintLandscapeLayer Params
      else if FString_equals CommandType ''get_landscape_info'' then Operation e GetLandscapeInfo Params
      else Returns ''{\"success\":false,\"error\":\"Unknown landscape command\"}'')"

definition FUnrealMCPWorldCommands_HandleCommand ::
  "engine \<Rightarrow> string \<Rightarrow> json_obj \<Rightarrow> string call" where
  "FUnrealMCPWorldCommands_HandleCommand e CommandType Params =
     (if FString_equals CommandType ''get_current_level_info'' then Operation e GetCurrentLevelInfo Params
      else Returns ''{\"success\":false,\"error\":\"Unknown world command\"}'')"

section \<open>The task that ExecuteCommand queues\<close>

text \<open>
  The body of the lambda that \<^verbatim>\<open>ExecuteCommand\<close> hands to the game thread. It chooses
  the family by a chain of comparisons on the command name. A family that returns text
  has its answer read back into \<^verbatim>\<open>ResultJson\<close>, which stays null when it does not parse.
\<close>

definition editor_names :: "string list" where
  "editor_names =
     [''get_actors_in_level'', ''find_actors_by_name'', ''spawn_actor'', ''create_actor'',
      ''delete_actor'', ''set_actor_transform'', ''get_actor_properties'',
      ''set_actor_property'', ''spawn_blueprint_actor'', ''focus_viewport'',
      ''take_screenshot'']"

definition blueprint_names :: "string list" where
  "blueprint_names =
     [''create_blueprint'', ''add_component_to_blueprint'', ''set_component_property'',
      ''set_physics_properties'', ''compile_blueprint'', ''set_blueprint_property'',
      ''set_static_mesh_properties'', ''set_pawn_properties'']"

definition blueprint_node_names :: "string list" where
  "blueprint_node_names =
     [''connect_blueprint_nodes'', ''add_blueprint_get_self_component_reference'',
      ''add_blueprint_self_reference'', ''find_blueprint_nodes'',
      ''add_blueprint_event_node'', ''add_blueprint_input_action_node'',
      ''add_blueprint_function_node'', ''add_blueprint_get_component_node'',
      ''add_blueprint_variable'']"

definition project_names :: "string list" where
  "project_names = [''create_input_mapping'']"

definition umg_names :: "string list" where
  "umg_names =
     [''create_umg_widget_blueprint'', ''add_text_block_to_widget'',
      ''add_button_to_widget'', ''bind_widget_event'', ''set_text_block_binding'',
      ''add_widget_to_viewport'']"

definition asset_names :: "string list" where
  "asset_names =
     [''load_asset'', ''save_asset'', ''duplicate_asset'', ''delete_asset'',
      ''rename_asset'', ''move_asset'', ''import_asset'', ''export_asset'']"

definition content_browser_names :: "string list" where
  "content_browser_names = [''list_assets'', ''get_asset_metadata'', ''search_assets'']"

definition asset_registry_names :: "string list" where
  "asset_registry_names = [''get_asset_references'', ''get_asset_dependencies'']"

definition level_names :: "string list" where
  "level_names =
     [''create_level'', ''save_level'', ''load_level'', ''set_level_visibility'',
      ''create_streaming_level'', ''load_streaming_level'', ''unload_streaming_level'']"

definition landscape_names :: "string list" where
  "landscape_names =
     [''create_landscape'', ''modify_landscape'', ''paint_landscape_layer'',
      ''get_landscape_info'']"

definition world_names :: "string list" where
  "world_names = [''get_current_level_info'']"

definition read_back :: "string call \<Rightarrow> json_obj option call" where
  "read_back r = (case r of Returns Response \<Rightarrow> Returns (Deserialize Response) | Throws w \<Rightarrow> Throws w)"

text \<open>
  \<open>run_handler\<close> is the chain itself: \<open>None\<close> is its last \<^verbatim>\<open>else\<close>, the unknown command;
  otherwise it gives what the chosen family left in \<^verbatim>\<open>ResultJson\<close>, or what it threw.
\<close>

definition run_handler :: "engine \<Rightarrow> string \<Rightarrow> json_obj \<Rightarrow> json_obj option call option" where
  "run_handler e CommandType Params =
     (if FString_equals CommandType ''ping'' then Some (Returns (Some (SetStringField [] ''message'' ''pong'')))
      else if name_in CommandType editor_names
        then Some (HandleCommand e EditorCommands CommandType Params)
      else if name_in CommandType blueprint_names
        then Some (HandleCommand e BlueprintCommands CommandType Params)
      else if name_in CommandType blueprint_node_names
        then Some (HandleCommand e BlueprintNodeCommands CommandType Params)
      else if name_in CommandType project_names
        then Some (HandleCommand e ProjectCommands CommandType Params)
      else if name_in CommandType umg_names
        then Some (HandleCommand e UMGCommands CommandType Params)
      else if name_in CommandType asset_names
        then Some (read_back (FUnrealMCPAssetCommands_HandleCommand e CommandType Params))
      else if name_in CommandType content_browser_names
        then Some (read_back (FUnrealMCPContentBrowserCommands_HandleCommand e CommandType Params))
      else if name_in CommandType asset_registry_names
        then Some (read_back (FUnrealMCPAssetRegistryCommands_HandleCommand e CommandType Params))
      else if name_in CommandType level_names
        then Some (read_back (FUnrealMCPLevelCommands_HandleCommand e CommandType Params))
      else if name_in CommandType landscape_names
        then Some (read_back (FUnrealMCPLandscapeCommands_HandleCommand e CommandType Params))
      else if name_in CommandType world_names
        then Some (read_back (FUnrealMCPWorldCommands_HandleCommand e CommandType Params))
      else None)"

text \<open>The check of the handler's result for a \<^verbatim>\<open>success\<close> field, and the envelope built from it.\<close>

definition check_result :: "engine \<Rightarrow> json_obj \<Rightarrow> json_obj" where
  "check_result e ResultJson =
     (let bSuccess =
            (if HasField ResultJson ''success''
             then GetBoolField (AsBool e) ResultJson ''success'' else True);
          ErrorMessage =
            (if HasField ResultJson ''success'' \<and> \<not> bSuccess \<and> HasField ResultJson ''error''
             then GetStringField (AsString e) ResultJson ''error'' else [])
      in if bSuccess
         then SetObjectField (SetStringField [] ''status'' ''success'') ''result'' ResultJson
         else SetStringField (SetStringField [] ''status'' ''error'') ''error'' ErrorMessage)"

text \<open>
  \<open>ExecuteCommand_response\<close> is the \<^verbatim>\<open>ResponseJson\<close> that the task serializes into the
  promise. It is \<open>None\<close> when the task dereferences a null \<^verbatim>\<open>ResultJson\<close>: the task
  then faults and sets no promise.
\<close>

definition ExecuteCommand_response :: "engine \<Rightarrow> string \<Rightarrow> json_obj \<Rightarrow> json_obj option" where
  "ExecuteCommand_response e CommandType Params =
     (case run_handler e CommandType Params of
        None \<Rightarrow>
          Some (SetStringField (SetStringField [] ''status'' ''error'') ''error''
                  (''Unknown command: '' @ CommandType))
      | Some (Throws w) \<Rightarrow>
          Some (SetStringField (SetStringField [] ''status'' ''error'') ''error'' w)
      | Some (Returns None) \<Rightarrow> None
      | Some (Returns (Some ResultJson)) \<Rightarrow> Some (check_result e ResultJson))"

definition ExecuteCommand_task :: "engine \<Rightarrow> string \<Rightarrow> json_obj \<Rightarrow> string option" where
  "ExecuteCommand_task e CommandType Params =
     map_option (Serialize e) (ExecuteCommand_response e CommandType Params)"

section \<open>Queueing on the game thread and waiting for the promise\<close>

text \<open>
  \<^verbatim>\<open>ExecuteCommand\<close> creates a promise, queues the task on the game thread with
  \<^verbatim>\<open>AsyncTask\<close> and blocks in \<^verbatim>\<open>Future.Get()\<close>. The game thread's side is a queue of tasks,
  each with the promise it will set, the promises set so far, and whether a task has
  faulted. The game thread runs its queue in order, one task per round, unless it is the
  thread that waits.
\<close>

datatype thread = GameThread | ListenerThread

record game =
  tasks :: "(nat \<times> string \<times> json_obj) list"
  promises :: "(nat \<times> string) list"
  next_promise :: nat
  faulted :: bool

definition AsyncTask :: "nat \<times> string \<times> json_obj \<Rightarrow> game \<Rightarrow> game" where
  "AsyncTask t g = g\<lparr>tasks := tasks g @ [t]\<rparr>"

definition run_next_task :: "engine \<Rightarrow> game \<Rightarrow> game" where
  "run_next_task e g =
     (if faulted g then g
      else
        (case tasks g of
           [] \<Rightarrow> g
         | (p, CommandType, Params) # ts \<Rightarrow>
             (case ExecuteCommand_task e CommandType Params of
                Some ResultString \<Rightarrow> g\<lparr>tasks := ts, promises := (p, ResultString) # promises g\<rparr>
              | None \<Rightarrow> g\<lparr>tasks := ts, faulted := True\<rparr>)))"

text \<open>
  \<open>Future_Get\<close> waits for at most \<open>n\<close> rounds. In each round it returns the promise's
  value if it is set. Otherwise the game thread runs its next task, when the caller is
  another thread; when the caller is the game thread, that thread is suspended here and
  runs nothing. \<open>None\<close> means still blocked after \<open>n\<close> rounds.
\<close>

fun Future_Get :: "thread \<Rightarrow> nat \<Rightarrow> engine \<Rightarrow> nat \<Rightarrow> game \<Rightarrow> string option \<times> game" where
  "Future_Get caller 0 e p g = (None, g)"
| "Future_Get caller (Suc n) e p g =
     (case map_of (promises g) p of
        Some ResultString \<Rightarrow> (Some ResultString, g)
      | None \<Rightarrow>
          if caller = GameThread then Future_Get caller n e p g
          else Future_Get caller n e p (run_next_task e g))"

text \<open>
  \<open>ExecuteCommand_submit\<close> is the first part of \<^verbatim>\<open>ExecuteCommand\<close>, up to and including the
  call of \<^verbatim>\<open>AsyncTask\<close>: it returns the new promise and the game thread's state with the task
  queued. Nothing in it looks at the command name or at the calling thread.
\<close>

definition ExecuteCommand_submit :: "string \<Rightarrow> json_obj \<Rightarrow> game \<Rightarrow> nat \<times> game" where
  "ExecuteCommand_submit CommandType Params g =
     (let p = next_promise g
      in (p, AsyncTask (p, CommandType, Params) (g\<lparr>next_promise := Suc p\<rparr>)))"

definition ExecuteCommand ::
  "thread \<Rightarrow> nat \<Rightarrow> engine \<Rightarrow> string \<Rightarrow> json_obj \<Rightarrow> game \<Rightarrow> string option \<times> game" where
  "ExecuteCommand caller n e CommandType Params g =
     (case ExecuteCommand_submit CommandType Params g of
        (p, g') \<Rightarrow> Future_Get caller n e p g')"

text \<open>The names that the chain of \<open>run_handler\<close> compares with, in its order.\<close>

definition registered_names :: "string list" where
  "registered_names =
     ''ping'' # editor_names @ blueprint_names @ blueprint_node_names @ project_names
       @ umg_names @ asset_names @ content_browser_names @ asset_registry_names
       @ level_names @ landscape_names @ world_names"

text \<open>
  The names under which the chain calls each of the bridge's handler objects, and the
  six static families with the names under which the chain calls them; these are also
  the names that each family tests itself.
\<close>

fun handler_names :: "handler \<Rightarrow> string list" where
  "handler_names EditorCommands = editor_names"
| "handler_names BlueprintCommands = blueprint_names"
| "handler_names BlueprintNodeCommands = blueprint_node_names"
| "handler_names ProjectCommands = project_names"
| "handler_names UMGCommands = umg_names"

datatype family =
    AssetCommands
  | ContentBrowserCommands
  | AssetRegistryCommands
  | LevelCommands
  | LandscapeCommands
  | WorldCommands

fun family_names :: "family \<Rightarrow> string list" where
  "family_names AssetCommands = asset_names"
| "family_names ContentBrowserCommands = content_browser_names"
| "family_names AssetRegistryCommands = asset_registry_names"
| "family_names LevelCommands = level_names"
| "family_names LandscapeCommands = landscape_names"
| "family_names WorldCommands = world_names"

fun family_HandleCommand :: "engine \<Rightarrow> family \<Rightarrow> string \<Rightarrow> json_obj \<Rightarrow> string call" where
  "family_HandleCommand e AssetCommands = FUnrealMCPAssetCommands_HandleCommand e"
| "family_HandleCommand e ContentBrowserCommands = FUnrealMCPContentBrowserCommands_HandleCommand e"
| "family_HandleCommand e AssetRegistryCommands = FUnrealMCPAssetRegistryCommands_HandleCommand e"
| "family_HandleCommand e LevelCommands = FUnrealMCPLevelCommands_HandleCommand e"
| "family_HandleCommand e LandscapeCommands = FUnrealMCPLandscapeCommands_HandleCommand e"
| "family_HandleCommand e WorldCommands = FUnrealMCPWorldCommands_HandleCommand e"

text \<open>
  \<open>route\<close> is the chain of \<open>run_handler\<close> without the calls: the branch that the tests of
  the command name select.
\<close>

datatype branch = Ping | Member handler | Family family

definition route :: "string \<Rightarrow> branch option" where
  "route CommandType =
     (if FString_equals CommandType ''ping'' then Some Ping
      else if name_in CommandType editor_names then Some (Member EditorCommands)
      else if name_in CommandType blueprint_names then Some (Member BlueprintCommands)
      else if name_in CommandType blueprint_node_names then Some (Member BlueprintNodeCommands)
      else if name_in CommandType project_names then Some (Member ProjectCommands)
      else if name_in CommandType umg_names then Some (Member UMGCommands)
      else if name_in CommandType asset_names then Some (Family AssetCommands)
      else if name_in CommandType content_browser_names then Some (Family ContentBrowserCommands)
      else if name_in CommandType asset_registry_names then Some (Family AssetRegistryCommands)
      else if name_in CommandType level_names then Some (Family LevelCommands)
      else if name_in CommandType landscape_names then Some (Family LandscapeCommands)
      else if name_in CommandType world_names then Some (Family WorldCommands)
      else None)"

section \<open>Starting and stopping the server\<close>

text \<open>
  The members of \<^verbatim>\<open>UUnrealMCPBridge\<close> that \<^verbatim>\<open>StartServer\<close> and \<^verbatim>\<open>StopServer\<close> touch. A
  socket or a thread is given by a number; \<open>None\<close> is a null pointer.
\<close>

record bridge =
  bIsRunning :: bool
  ListenerSocket :: "nat option"
  ConnectionSocket :: "nat option"
  ServerThread :: "nat option"

text \<open>
  Both functions return nothing. What they do besides changing the members is recorded
  as a list of events: the calls on sockets and threads, and the log lines with their
  verbosity and format string.
\<close>

datatype verbosity = Display | Warning | Error

datatype event =
    Log verbosity string
  | SetReuseAddr nat
  | SetNonBlocking nat
  | Bind nat
  | Listen nat
  | Kill nat
  | DestroySocket nat

text \<open>
  What the platform answers during one call of \<^verbatim>\<open>StartServer\<close>: the socket that
  \<^verbatim>\<open>CreateSocket\<close> returns, whether \<^verbatim>\<open>Bind\<close> and \<^verbatim>\<open>Listen\<close> succeed, and the thread that
  \<^verbatim>\<open>FRunnableThread::Create\<close> returns. Whether \<^verbatim>\<open>ISocketSubsystem::Get\<close> returns a
  subsystem is a parameter of its own (\<open>subsystem\<close>), the same for every call.
\<close>

record platform =
  CreateSocket :: "nat option"
  Bind_result :: bool
  Listen_result :: bool
  CreateThread :: "nat option"

text \<open>
  \<^verbatim>\<open>StopServer\<close> calls \<^verbatim>\<open>DestroySocket\<close> on the result of \<^verbatim>\<open>ISocketSubsystem::Get\<close> without
  a null check; the result \<open>None\<close> stands for that null dereference.
\<close>

definition StopServer :: "bool \<Rightarrow> bridge \<Rightarrow> (bridge \<times> event list) option" where
  "StopServer subsystem s =
     (if \<not> bIsRunning s then Some (s, [])
      else
        let s1 = s\<lparr>bIsRunning := False\<rparr>;
            kill = (case ServerThread s1 of Some t \<Rightarrow> [Kill t] | None \<Rightarrow> []);
            s2 = s1\<lparr>ServerThread := None\<rparr>
        in if (ConnectionSocket s2 \<noteq> None \<or> ListenerSocket s2 \<noteq> None) \<and> \<not> subsystem then None
           else
             Some (s2\<lparr>ConnectionSocket := None, ListenerSocket := None\<rparr>,
                   kill
                   @ (case ConnectionSocket s2 of Some c \<Rightarrow> [DestroySocket c] | None \<Rightarrow> [])
                   @ (case ListenerSocket s2 of Some l \<Rightarrow> [DestroySocket l] | None \<Rightarrow> [])
                   @ [Log Display ''UnrealMCPBridge: Server stopped'']))"

definition StartServer :: "bool \<Rightarrow> platform \<Rightarrow> bridge \<Rightarrow> (bridge \<times> event list) option" where
  "StartServer subsystem pf s =
     (if bIsRunning s
      then Some (s, [Log Warning ''UnrealMCPBridge: Server is already running''])
      else if \<not> subsystem
      then Some (s, [Log Error ''UnrealMCPBridge: Failed to get socket subsystem''])
      else
        (case CreateSocket pf of
           None \<Rightarrow> Some (s, [Log Error ''UnrealMCPBridge: Failed to create listener socket''])
         | Some sock \<Rightarrow>
             if \<not> Bind_result pf
             then Some (s, [SetReuseAddr sock, SetNonBlocking sock, Bind sock,
                            Log Error ''UnrealMCPBridge: Failed to bind listener socket to %s:%d''])
             else if \<not> Listen_result pf
             then Some (s, [SetReuseAddr sock, SetNonBlocking sock, Bind sock, Listen sock,
                            Log Error ''UnrealMCPBridge: Failed to start listening''])
             else
               let s1 = s\<lparr>ListenerSocket := Some sock, bIsRunning := True\<rparr>;
                   started = [SetReuseAddr sock, SetNonBlocking sock, Bind sock, Listen sock,
                              Log Display ''UnrealMCPBridge: Server started on %s:%d'']
               in (case CreateThread pf of
                     Some t \<Rightarrow> Some (s1\<lparr>ServerThread := Some t\<rparr>, started)
                   | None \<Rightarrow>
                       (case StopServer subsystem (s1\<lparr>ServerThread := None\<rparr>) of
                          None \<Rightarrow> None
                        | Some (s2, stopped) \<Rightarrow>
                            Some (s2, started
                                      @ [Log Error ''UnrealMCPBridge: Failed to create server thread'']
                                      @ stopped)))))"

text \<open>
  \<^verbatim>\<open>Initialize\<close> resets the members (\<open>initial_bridge\<close>) and starts the server; its reading
  of the command line for the address and the port changes none of the members modelled
  here. \<^verbatim>\<open>Deinitialize\<close> stops the server. The log lines that these two functions write
  themselves are left out of the events.
\<close>

definition initial_bridge :: bridge where
  "initial_bridge =
     \<lparr>bIsRunning = False, ListenerSocket = None, ConnectionSocket = None, ServerThread = None\<rparr>"

definition Initialize :: "bool \<Rightarrow> platform \<Rightarrow> (bridge \<times> event list) option" where
  "Initialize subsystem pf = StartServer subsystem pf initial_bridge"

definition Deinitialize :: "bool \<Rightarrow> bridge \<Rightarrow> (bridge \<times> event list) option" where
  "Deinitialize subsystem s = StopServer subsystem s"

text \<open>
  The life of a bridge: \<^verbatim>\<open>Initialize\<close>, then any sequence of calls of \<^verbatim>\<open>StartServer\<close> and
  \<^verbatim>\<open>StopServer\<close>, each start with the platform's answers of its moment. \<open>run_calls\<close> gives
  the state of the members after the last call, or \<open>None\<close> if a call has faulted.
\<close>

datatype lifecycle_call = CallStartServer platform | CallStopServer

fun run_calls :: "bool \<Rightarrow> bridge \<Rightarrow> lifecycle_call list \<Rightarrow> bridge option" where
  "run_calls subsystem s [] = Some s"
| "run_calls subsystem s (CallStartServer pf # calls) =
     (case StartServer subsystem pf s of
        None \<Rightarrow> None
      | Some (s', evs) \<Rightarrow> run_calls subsystem s' calls)"
| "run_calls subsystem s (CallStopServer # calls) =
     (case StopServer subsystem s of
        None \<Rightarrow> None
      | Some (s', evs) \<Rightarrow> run_calls subsystem s' calls)"

definition lifecycle :: "bool \<Rightarrow> platform \<Rightarrow> lifecycle_call list \<Rightarrow> bridge option" where
  "lifecycle subsystem pf calls =
     (case Initialize subsystem pf of
        None \<Rightarrow> None
      | Some (s, evs) \<Rightarrow> run_calls subsystem s calls)"

section \<open>A sample environment\<close>

text \<open>
  An engine, a game thread and a platform on which the theorems below are instantiated.
  The sample writer prints an object's field names only; no proof looks into it.
\<close>

definition sample_writer :: "json_obj \<Rightarrow> string" where
  "sample_writer obj = concat (map (\<lambda>(k, v). k @ '';'') obj)"

definition sample_engine :: engine where
  "sample_engine =
     \<lparr>Serialize = sample_writer,
      AsBool = (\<lambda>v. False),
      AsString = (\<lambda>v. []),
      HandleCommand =
        (\<lambda>h CommandType Params.
           if h = EditorCommands then Throws ''bad allocation''
           else if h = ProjectCommands
             then Returns (Some [(''success'', JBool False), (''error'', JString ''Missing name'')])
           else Returns (Some [(''name'', JString ''BP_Door'')])),
      Operation =
        (\<lambda>op Params.
           if op = ImportAsset then Throws ''file not found''
           else Returns ''{\"success\":true,\"result\":{}}''),
      LoadedAssetClass = (\<lambda>AssetPath. if AssetPath = ''/Game/Door'' then Some ''StaticMesh'' else None),
      EditorWorld = Some ''Main'',
      LevelEditorSubsystem = True,
      SaveCurrentLevel = Returns True\<rparr>"

definition idle_game :: game where
  "idle_game = \<lparr>tasks = [], promises = [], next_promise = 0, faulted = False\<rparr>"

definition busy_port :: platform where
  "busy_port = \<lparr>CreateSocket = Some 4, Bind_result = False, Listen_result = True, CreateThread = Some 1\<rparr>"

definition free_port :: platform where
  "free_port = \<lparr>CreateSocket = Some 4, Bind_result = True, Listen_result = True, CreateThread = Some 1\<rparr>"

section \<open>Properties of the task and of the wait\<close>

lemma check_result_success:
  assumes "\<not> (HasField r ''success'' \<and> \<not> GetBoolField (AsBool e) r ''success'')"
  shows "check_result e r = [(''status'', JString ''success''), (''result'', JObject r)]"
  using assms by (auto simp: check_result_def SetStringField_def SetObjectField_def Let_def)

lemma check_result_error:
  assumes "HasField r ''success''" and "\<not> GetBoolField (AsBool e) r ''success''"
  shows "check_result e r =
           [(''status'', JString ''error''),
            (''error'', JString (if HasField r ''error''
                                 then GetStringField (AsString e) r ''error'' else []))]"
  using assms by (simp add: check_result_def SetStringField_def Let_def)

lemma Future_Get_GameThread:
  "map_of (promises g) p = None \<Longrightarrow> Future_Get GameThread n e p g = (None, g)"
  by (induction n) simp_all

lemma Future_Get_faulted:
  "faulted g \<Longrightarrow> map_of (promises g) p = None \<Longrightarrow> Future_Get caller n e p g = (None, g)"
  by (induction n) (auto simp: run_next_task_def)

lemma Future_Get_single_task:
  assumes "tasks g = [(p, c, ps)]" and "\<not> faulted g" and "map_of (promises g) p = None"
  shows "Future_Get ListenerThread (Suc (Suc n)) e p g =
           (case ExecuteCommand_task e c ps of
              Some r \<Rightarrow> (Some r, g\<lparr>tasks := [], promises := (p, r) # promises g\<rparr>)
            | None \<Rightarrow> (None, g\<lparr>tasks := [], faulted := True\<rparr>))"
proof (cases "ExecuteCommand_task e c ps")
  case None
  have "run_next_task e g = g\<lparr>tasks := [], faulted := True\<rparr>"
    using assms None by (simp add: run_next_task_def)
  moreover have "Future_Get ListenerThread (Suc n) e p (g\<lparr>tasks := [], faulted := True\<rparr>)
                   = (None, g\<lparr>tasks := [], faulted := True\<rparr>)"
    using assms by (intro Future_Get_faulted) simp_all
  ultimately show ?thesis using assms None by simp
next
  case (Some r)
  have "run_next_task e g = g\<lparr>tasks := [], promises := (p, r) # promises g\<rparr>"
    using assms Some by (simp add: run_next_task_def)
  then show ?thesis using assms Some by simp
qed

lemma ExecuteCommand_ListenerThread:
  assumes "tasks g = []" and "\<not> faulted g" and "map_of (promises g) (next_promise g) = None"
  shows "ExecuteCommand ListenerThread (Suc (Suc n)) e c ps g =
           (case ExecuteCommand_task e c ps of
              Some r \<Rightarrow> (Some r, g\<lparr>next_promise := Suc (next_promise g), tasks := [],
                                    promises := (next_promise g, r) # promises g\<rparr>)
            | None \<Rightarrow> (None, g\<lparr>next_promise := Suc (next_promise g), tasks := [],
                                 faulted := True\<rparr>))"
proof -
  let ?g = "AsyncTask (next_promise g, c, ps) (g\<lparr>next_promise := Suc (next_promise g)\<rparr>)"
  have "tasks ?g = [(next_promise g, c, ps)]" "\<not> faulted ?g"
       "map_of (promises ?g) (next_promise g) = None"
    using assms by (simp_all add: AsyncTask_def)
  from Future_Get_single_task[OF this, of n e]
  show ?thesis
    by (simp add: ExecuteCommand_def ExecuteCommand_submit_def Let_def AsyncTask_def
             split: option.splits)
qed

lemma name_in_append: "name_in c (xs @ ys) \<longleftrightarrow> name_in c xs \<or> name_in c ys"
  by (induction xs) auto

lemma name_in_iff: "name_in c L \<longleftrightarrow> map ToLower c \<in> set (map (map ToLower) L)"
  by (induction L) (auto simp: FString_equals_def)

lemma registered_names_lower: "map (map ToLower) registered_names = registered_names"
  by code_simp

lemma registered_names_distinct: "distinct registered_names"
  by code_simp

lemma registered_name_lower:
  assumes "n \<in> set registered_names"
  shows "map ToLower n = n"
proof -
  have "map (map ToLower) registered_names = map id registered_names"
    using registered_names_lower by simp
  then have "\<forall>x \<in> set registered_names. map ToLower x = id x"
    by (simp only: map_eq_conv)
  with assms show ?thesis by simp
qed

lemma name_in_registered:
  assumes "set L \<subseteq> set registered_names"
  shows "name_in c L \<longleftrightarrow> map ToLower c \<in> set L"
proof -
  have "map (map ToLower) L = L"
  proof (rule map_idI)
    fix n assume "n \<in> set L"
    with assms have "n \<in> set registered_names" by blast
    then show "map ToLower n = n" by (rule registered_name_lower)
  qed
  then show ?thesis by (simp add: name_in_iff)
qed

lemma FString_equals_registered:
  assumes "n \<in> set registered_names"
  shows "FString_equals c n \<longleftrightarrow> map ToLower c = n"
  using registered_name_lower[OF assms] by (simp add: FString_equals_def)

text \<open>
  No two of the names agree when case is ignored, so a name that one branch of the
  chain accepts is refused by every branch before it.
\<close>

lemma route_None_iff: "route c = None \<longleftrightarrow> \<not> name_in c registered_names"
  by (simp add: route_def registered_names_def name_in_append)

lemma route_Ping: "FString_equals c ''ping'' \<Longrightarrow> route c = Some Ping"
  by (simp add: route_def)

lemma route_Member:
  assumes "name_in c (handler_names h)"
  shows "route c = Some (Member h)"
proof -
  have sub: "set [''ping''] \<subseteq> set registered_names" "set editor_names \<subseteq> set registered_names"
    "set blueprint_names \<subseteq> set registered_names"
    "set blueprint_node_names \<subseteq> set registered_names"
    "set project_names \<subseteq> set registered_names" "set umg_names \<subseteq> set registered_names"
    by (auto simp: registered_names_def)
  have ping: "FString_equals c ''ping'' \<longleftrightarrow> map ToLower c = ''ping''"
    by (rule FString_equals_registered) (simp add: registered_names_def)
  note conv = sub(2-)[THEN name_in_registered]
  from registered_names_distinct assms show ?thesis
    unfolding route_def ping conv registered_names_def
    by (cases h) (auto simp: conv)
qed

lemma route_Family:
  assumes "name_in c (family_names f)"
  shows "route c = Some (Family f)"
proof -
  have sub: "set editor_names \<subseteq> set registered_names"
    "set blueprint_names \<subseteq> set registered_names"
    "set blueprint_node_names \<subseteq> set registered_names"
    "set project_names \<subseteq> set registered_names" "set umg_names \<subseteq> set registered_names"
    "set asset_names \<subseteq> set registered_names"
    "set content_browser_names \<subseteq> set registered_names"
    "set asset_registry_names \<subseteq> set registered_names"
    "set level_names \<subseteq> set registered_names" "set landscape_names \<subseteq> set registered_names"
    "set world_names \<subseteq> set registered_names"
    by (auto simp: registered_names_def)
  have ping: "FString_equals c ''ping'' \<longleftrightarrow> map ToLower c = ''ping''"
    by (rule FString_equals_registered) (simp add: registered_names_def)
  note conv = sub[THEN name_in_registered]
  from registered_names_distinct assms show ?thesis
    unfolding route_def ping conv registered_names_def
    by (cases f) (auto simp: conv)
qed


lemma run_handler_route:
  "run_handler e c ps =
     (case route c of
        None \<Rightarrow> None
      | Some Ping \<Rightarrow> Some (Returns (Some (SetStringField [] ''message'' ''pong'')))
      | Some (Member h) \<Rightarrow> Some (HandleCommand e h c ps)
      | Some (Family f) \<Rightarrow> Some (read_back (family_HandleCommand e f c ps)))"
  by (simp add: run_handler_def route_def)

lemma run_handler_None_iff:
  "run_handler e c ps = None \<longleftrightarrow> \<not> name_in c registered_names"
  by (simp add: run_handler_route route_None_iff[symmetric] split: option.splits branch.splits)

lemma run_handler_Member:
  "name_in c (handler_names h) \<Longrightarrow> run_handler e c ps = Some (HandleCommand e h c ps)"
  by (simp add: run_handler_route route_Member)

lemma run_handler_Family:
  "name_in c (family_names f) \<Longrightarrow>
     run_handler e c ps = Some (read_back (family_HandleCommand e f c ps))"
  by (simp add: run_handler_route route_Family)

lemma ping_response:
  "ExecuteCommand_response e ''ping'' Params =
     Some [(''status'', JString ''success''),
           (''result'', JObject [(''message'', JString ''pong'')])]"
  by (simp add: ExecuteCommand_response_def run_handler_def FString_equals_def check_result_def
                HasField_def SetStringField_def SetObjectField_def)

lemma unknown_response:
  assumes "\<not> name_in c registered_names"
  shows "ExecuteCommand_response e c ps =
           Some [(''status'', JString ''error''), (''error'', JString (''Unknown command: '' @ c))]"
proof -
  have "run_handler e c ps = None"
    using assms by (simp add: run_handler_None_iff)
  then show ?thesis
    by (simp add: ExecuteCommand_response_def SetStringField_def)
qed

lemma response_shapes:
  assumes "ExecuteCommand_response e c ps = Some env"
  shows "(\<exists>r. env = [(''status'', JString ''success''), (''result'', JObject r)])
       \<or> (\<exists>m. env = [(''status'', JString ''error''), (''error'', JString m)])"
proof (cases "run_handler e c ps")
  case None
  then show ?thesis using assms
    by (auto simp: ExecuteCommand_response_def SetStringField_def)
next
  case (Some res)
  show ?thesis
  proof (cases res)
    case (Throws w)
    then show ?thesis using assms Some
      by (auto simp: ExecuteCommand_response_def SetStringField_def)
  next
    case (Returns ro)
    then obtain r where ro: "ro = Some r"
      using assms Some by (cases ro) (simp_all add: ExecuteCommand_response_def)
    then have env: "env = check_result e r"
      using assms Some Returns by (simp add: ExecuteCommand_response_def)
    show ?thesis
    proof (cases "HasField r ''success'' \<and> \<not> GetBoolField (AsBool e) r ''success''")
      case True
      then show ?thesis using env by (simp add: check_result_error)
    next
      case False
      then show ?thesis using env check_result_success[of r e] by simp
    qed
  qed
qed

lemma ExecuteCommand_returns_task:
  assumes idle: "tasks g = []" "\<not> faulted g" "map_of (promises g) (next_promise g) = None"
    and ret: "fst (ExecuteCommand ListenerThread n e c ps g) = Some ResultString"
  shows "\<exists>env. ExecuteCommand_response e c ps = Some env \<and> ResultString = Serialize e env"
proof -
  have "ExecuteCommand_task e c ps = Some ResultString"
  proof (cases n)
    case 0
    then show ?thesis using ret
      by (simp add: ExecuteCommand_def ExecuteCommand_submit_def Let_def)
  next
    case (Suc m)
    show ?thesis
    proof (cases m)
      case 0
      then show ?thesis using ret Suc idle
        by (simp add: ExecuteCommand_def ExecuteCommand_submit_def Let_def AsyncTask_def)
    next
      case (Suc k)
      then show ?thesis
        using ret \<open>n = Suc m\<close> ExecuteCommand_ListenerThread[OF idle, of k e c ps]
        by (simp split: option.splits)
    qed
  qed
  then show ?thesis by (auto simp: ExecuteCommand_task_def)
qed

lemma idle_game_is_idle:
  "tasks idle_game = []" "\<not> faulted idle_game"
  "map_of (promises idle_game) (next_promise idle_game) = None"
  by (simp_all add: idle_game_def)

lemma sample_names:
  "name_in ''create_blueprint'' (handler_names BlueprintCommands)"
  "name_in ''create_input_mapping'' (handler_names ProjectCommands)"
  "name_in ''spawn_actor'' (handler_names EditorCommands)"
  "name_in ''import_asset'' (family_names AssetCommands)"
  "name_in ''load_asset'' (family_names AssetCommands)"
  "\<not> name_in ''copy_asset'' (family_names AssetCommands)"
  by code_simp+

lemma sample_create_blueprint:
  "run_handler sample_engine ''create_blueprint'' [] =
     Some (Returns (Some [(''name'', JString ''BP_Door'')]))"
  using run_handler_Member[OF sample_names(1), of sample_engine "[]"]
  by (simp add: sample_engine_def)


lemma sample_spawn_actor:
  "HandleCommand sample_engine EditorCommands ''spawn_actor'' [] = Throws ''bad allocation''"
  by (simp add: sample_engine_def)

lemma sample_import_asset:
  "family_HandleCommand sample_engine AssetCommands ''import_asset'' [] = Throws ''file not found''"
  by code_simp

lemma does_not_exist_unregistered: "\<not> name_in ''does_not_exist'' registered_names"
  by code_simp

section \<open>The dispatcher\<close>

text \<open>
  Claim C9. For the request \<^verbatim>\<open>{"type":"ping","params":{}}\<close> the response is exactly
  \<^verbatim>\<open>{"status":"success","result":{"message":"pong"}}\<close>: the task builds this object for
  the command \<^verbatim>\<open>ping\<close>, whatever the engine, and \<^verbatim>\<open>ExecuteCommand\<close>, called on the listener
  thread with the game thread idle, returns its serialization.
\<close>

theorem ping_pong:
  "ExecuteCommand_response e ''ping'' [] =
     Some [(''status'', JString ''success''),
           (''result'', JObject [(''message'', JString ''pong'')])]
   \<and> fst (ExecuteCommand ListenerThread 2 e ''ping'' [] idle_game) =
     Some (Serialize e [(''status'', JString ''success''),
                        (''result'', JObject [(''message'', JString ''pong'')])])"
proof -
  have "ExecuteCommand ListenerThread (Suc (Suc 0)) e ''ping'' [] idle_game =
          (case ExecuteCommand_task e ''ping'' [] of
              Some r \<Rightarrow> (Some r, idle_game\<lparr>next_promise := Suc (next_promise idle_game),
                                    tasks := [],
                                    promises := (next_promise idle_game, r) # promises idle_game\<rparr>)
            | None \<Rightarrow> (None, idle_game\<lparr>next_promise := Suc (next_promise idle_game), tasks := [],
                                 faulted := True\<rparr>))"
    by (rule ExecuteCommand_ListenerThread) (simp_all add: idle_game_is_idle)
  then show ?thesis
    using ping_response[of e "[]"] by (simp add: ExecuteCommand_task_def numeral_2_eq_2)
qed

theorem ping_pong_witness:
  "fst (ExecuteCommand ListenerThread 2 sample_engine ''ping'' [] idle_game) =
     Some (sample_writer [(''status'', JString ''success''),
                          (''result'', JObject [(''message'', JString ''pong'')])])"
  using ping_pong[of sample_engine] by (simp add: sample_engine_def)

text \<open>
  For a registered command whose handler returned an object, or text that reads as an
  object, \<^verbatim>\<open>ExecuteCommand\<close> returns an envelope with status \<^verbatim>\<open>success\<close> if and only if the
  object has no \<^verbatim>\<open>success\<close> field that reads false; for a boolean field that is its value.
  The \<^verbatim>\<open>result\<close> of a success envelope is the handler's object, unchanged, and an object
  without a \<^verbatim>\<open>success\<close> field always gives a success envelope with the whole object as
  payload.
\<close>

lemma dispatch_success_iff:
  assumes handled:
      "(FString_equals CommandType ''ping'' \<and> ResultJson = [(''message'', JString ''pong'')])
       \<or> (\<exists>h. name_in CommandType (handler_names h)
               \<and> HandleCommand e h CommandType Params = Returns (Some ResultJson))
       \<or> (\<exists>f Response. name_in CommandType (family_names f)
               \<and> family_HandleCommand e f CommandType Params = Returns Response
               \<and> Deserialize Response = Some ResultJson)"
    and idle: "tasks g = []" "\<not> faulted g" "map_of (promises g) (next_promise g) = None"
  shows "\<exists>env. ExecuteCommand_response e CommandType Params = Some env
           \<and> fst (ExecuteCommand ListenerThread (Suc (Suc n)) e CommandType Params g)
               = Some (Serialize e env)
           \<and> (map_of env ''status'' = Some (JString ''success'')
                \<longleftrightarrow> \<not> (HasField ResultJson ''success''
                        \<and> GetBoolField (AsBool e) ResultJson ''success'' = False))
           \<and> (\<forall>b. map_of ResultJson ''success'' = Some (JBool b)
                \<longrightarrow> (map_of env ''status'' = Some (JString ''success'') \<longleftrightarrow> b))
           \<and> (map_of env ''status'' = Some (JString ''success'')
                \<longrightarrow> env = [(''status'', JString ''success''), (''result'', JObject ResultJson)])
           \<and> (\<not> HasField ResultJson ''success''
                \<longrightarrow> env = [(''status'', JString ''success''), (''result'', JObject ResultJson)])"
proof -
  have run: "run_handler e CommandType Params = Some (Returns (Some ResultJson))"
    using handled
  proof (elim disjE conjE exE)
    assume "FString_equals CommandType ''ping''" "ResultJson = [(''message'', JString ''pong'')]"
    then show ?thesis
      by (simp add: run_handler_route route_Ping SetStringField_def)
  next
    fix h
    assume "name_in CommandType (handler_names h)"
      "HandleCommand e h CommandType Params = Returns (Some ResultJson)"
    then show ?thesis by (simp add: run_handler_Member)
  next
    fix f Response
    assume "name_in CommandType (family_names f)"
      "family_HandleCommand e f CommandType Params = Returns Response"
      "Deserialize Response = Some ResultJson"
    then show ?thesis by (simp add: run_handler_Family read_back_def)
  qed
  let ?env = "check_result e ResultJson"
  have resp: "ExecuteCommand_response e CommandType Params = Some ?env"
    using run by (simp add: ExecuteCommand_response_def)
  have ret: "fst (ExecuteCommand ListenerThread (Suc (Suc n)) e CommandType Params g)
               = Some (Serialize e ?env)"
    using ExecuteCommand_ListenerThread[OF idle, of n e CommandType Params] resp
    by (simp add: ExecuteCommand_task_def)
  show ?thesis
  proof (cases "HasField ResultJson ''success'' \<and> \<not> GetBoolField (AsBool e) ResultJson ''success''")
    case True
    then have "?env = [(''status'', JString ''error''),
            (''error'', JString (if HasField ResultJson ''error''
                                 then GetStringField (AsString e) ResultJson ''error'' else []))]"
      by (simp add: check_result_error)
    with True resp ret show ?thesis
      by (auto simp: GetBoolField_def HasField_def)
  next
    case False
    then have "?env = [(''status'', JString ''success''), (''result'', JObject ResultJson)]"
      by (rule check_result_success)
    with False resp ret show ?thesis
      by (auto simp: GetBoolField_def HasField_def)
  qed
qed

text \<open>
  Claim C1 fails on the code for a registered command whose handler's text is not JSON.
  \<^verbatim>\<open>LoadAsset\<close> prints the asset path into its answer without escaping it. For the
  request \<^verbatim>\<open>load_asset\<close> with the path \<^verbatim>\<open>a"b\<close>, which names no asset, the text does not
  read as an object, \<^verbatim>\<open>ResultJson\<close> stays null, and the task faults when it asks it for
  the \<^verbatim>\<open>success\<close> field: no envelope is produced, the promise is never set, and the caller
  is still blocked after any number of rounds.
\<close>

theorem load_asset_quote_faults:
  "name_in ''load_asset'' registered_names
   \<and> FUnrealMCPAssetCommands_HandleCommand sample_engine ''load_asset''
         [(''asset_path'', JString ''a\"b'')]
       = Returns ''{\"success\":false,\"error\":\"Failed to load asset: a\"b\"}''
   \<and> Deserialize ''{\"success\":false,\"error\":\"Failed to load asset: a\"b\"}'' = None
   \<and> run_handler sample_engine ''load_asset'' [(''asset_path'', JString ''a\"b'')]
       = Some (Returns None)
   \<and> ExecuteCommand_response sample_engine ''load_asset'' [(''asset_path'', JString ''a\"b'')]
       = None
   \<and> ExecuteCommand ListenerThread 5 sample_engine ''load_asset''
         [(''asset_path'', JString ''a\"b'')] idle_game
       = (None, \<lparr>tasks = [], promises = [], next_promise = 1, faulted = True\<rparr>)"
  by code_simp

text \<open>
  Claim C6. Every \<^verbatim>\<open>ResponseJson\<close> that the task produces, on the unknown-command path,
  after a caught exception and after a handler's result, has a \<^verbatim>\<open>status\<close> that is exactly
  \<^verbatim>\<open>success\<close> or \<^verbatim>\<open>error\<close>, a \<^verbatim>\<open>result\<close> field if and only if the status is \<^verbatim>\<open>success\<close>, an
  \<^verbatim>\<open>error\<close> field, which is a string, if and only if the status is \<^verbatim>\<open>error\<close>, and no other
  field.
\<close>

theorem envelope_wire_contract:
  assumes "ExecuteCommand_response e CommandType Params = Some env"
  shows "(map_of env ''status'' = Some (JString ''success'')
            \<or> map_of env ''status'' = Some (JString ''error''))
         \<and> (HasField env ''result'' \<longleftrightarrow> map_of env ''status'' = Some (JString ''success''))
         \<and> (HasField env ''error'' \<longleftrightarrow> map_of env ''status'' = Some (JString ''error''))
         \<and> (HasField env ''error'' \<longrightarrow> (\<exists>m. map_of env ''error'' = Some (JString m)))
         \<and> set (map fst env) \<subseteq> {''status'', ''result'', ''error''}"
  using response_shapes[OF assms] by (auto simp: HasField_def)

theorem envelope_wire_contract_witness:
  "ExecuteCommand_response sample_engine ''does_not_exist'' [] =
     Some [(''status'', JString ''error''),
           (''error'', JString ''Unknown command: does_not_exist'')]
   \<and> HasField [(''status'', JString ''error''),
                (''error'', JString ''Unknown command: does_not_exist'')] ''error''
   \<and> \<not> HasField [(''status'', JString ''error''),
                  (''error'', JString ''Unknown command: does_not_exist'')] ''result''"
proof -
  have r: "ExecuteCommand_response sample_engine ''does_not_exist'' [] =
     Some [(''status'', JString ''error''),
           (''error'', JString ''Unknown command: does_not_exist'')]"
    using unknown_response[OF does_not_exist_unregistered] by simp
  from envelope_wire_contract[OF r] r show ?thesis by simp
qed




section \<open>The game thread\<close>

text \<open>
  Claim C2, as stated, fails: the comparison of the command name with the known names
  happens inside the task, so \<^verbatim>\<open>ExecuteCommand\<close> has already queued work on the game
  thread when a name turns out to be unknown. Here the queue is empty before the call for
  the unknown name and holds its task after the submission; the error envelope that the
  caller receives is the value that the game thread has put into the promise.
\<close>

theorem unknown_command_is_queued:
  "\<not> name_in ''does_not_exist'' registered_names
   \<and> tasks idle_game = []
   \<and> tasks (snd (ExecuteCommand_submit ''does_not_exist'' [] idle_game))
       = [(0, ''does_not_exist'', [])]
   \<and> ExecuteCommand ListenerThread 2 sample_engine ''does_not_exist'' [] idle_game
       = (Some (sample_writer [(''status'', JString ''error''),
                               (''error'', JString ''Unknown command: does_not_exist'')]),
          \<lparr>tasks = [],
            promises = [(0, sample_writer [(''status'', JString ''error''),
                               (''error'', JString ''Unknown command: does_not_exist'')])],
            next_promise = 1, faulted = False\<rparr>)"
  using does_not_exist_unregistered
        unknown_response[OF does_not_exist_unregistered, of sample_engine "[]"]
  by (simp add: idle_game_def ExecuteCommand_submit_def AsyncTask_def ExecuteCommand_def
        eval_nat_numeral run_next_task_def ExecuteCommand_task_def sample_engine_def)

text \<open>
  Claim C2, amended. For every command name that is not registered, that is, equal to
  none of the names of the chain when case is ignored, \<^verbatim>\<open>ExecuteCommand\<close> returns the envelope \<^verbatim>\<open>{status:"error", error:"Unknown command: <name>"}\<close> and the chain
  calls no handler (\<open>run_handler\<close> ends in its last \<^verbatim>\<open>else\<close>), but it does so in a task that
  it has queued on the game thread, as for every other command.
\<close>

theorem unknown_command_envelope:
  assumes unknown: "\<not> name_in CommandType registered_names"
    and idle: "tasks g = []" "\<not> faulted g" "map_of (promises g) (next_promise g) = None"
  shows "fst (ExecuteCommand ListenerThread (Suc (Suc n)) e CommandType Params g)
           = Some (Serialize e [(''status'', JString ''error''),
                                (''error'', JString (''Unknown command: '' @ CommandType))])
         \<and> run_handler e CommandType Params = None
         \<and> tasks (snd (ExecuteCommand_submit CommandType Params g))
             = [(next_promise g, CommandType, Params)]"
proof -
  have "fst (ExecuteCommand ListenerThread (Suc (Suc n)) e CommandType Params g)
           = Some (Serialize e [(''status'', JString ''error''),
                                (''error'', JString (''Unknown command: '' @ CommandType))])"
    using ExecuteCommand_ListenerThread[OF idle, of n e CommandType Params]
          unknown_response[OF unknown, of e Params]
    by (simp add: ExecuteCommand_task_def)
  moreover have "run_handler e CommandType Params = None"
    using unknown by (simp add: run_handler_None_iff)
  moreover have "tasks (snd (ExecuteCommand_submit CommandType Params g))
             = [(next_promise g, CommandType, Params)]"
    using idle by (simp add: ExecuteCommand_submit_def AsyncTask_def Let_def)
  ultimately show ?thesis by simp
qed

theorem unknown_command_envelope_witness:
  "\<not> name_in ''does_not_exist'' registered_names
   \<and> tasks idle_game = [] \<and> \<not> faulted idle_game
   \<and> map_of (promises idle_game) (next_promise idle_game) = None
   \<and> fst (ExecuteCommand ListenerThread 2 sample_engine ''does_not_exist'' [] idle_game)
       = Some (sample_writer [(''status'', JString ''error''),
                              (''error'', JString ''Unknown command: does_not_exist'')])"
  using unknown_command_envelope[OF does_not_exist_unregistered idle_game_is_idle,
                                 of 0 sample_engine "[]"]
        does_not_exist_unregistered idle_game_is_idle
  by (simp add: sample_engine_def numeral_2_eq_2)

text \<open>
  Claim C3, as stated, fails: \<^verbatim>\<open>ExecuteCommand\<close> does not look at the thread it is called
  on. Called on the game thread it queues its task and waits like any other call; after
  five rounds the task is still in the queue and no value has come back. The same call
  on the listener thread returns.
\<close>

theorem game_thread_call_is_queued:
  "ExecuteCommand GameThread 5 sample_engine ''ping'' [] idle_game
     = (None, \<lparr>tasks = [(0, ''ping'', [])], promises = [], next_promise = 1, faulted = False\<rparr>)
   \<and> fst (ExecuteCommand ListenerThread 5 sample_engine ''ping'' [] idle_game)
     = Some (sample_writer [(''status'', JString ''success''),
                            (''result'', JObject [(''message'', JString ''pong'')])])"
  using ping_response[of sample_engine "[]"]
  by (simp add: ExecuteCommand_def ExecuteCommand_submit_def AsyncTask_def idle_game_def
        Future_Get_GameThread eval_nat_numeral run_next_task_def ExecuteCommand_task_def
        sample_engine_def)

text \<open>
  Claim C3, amended. \<^verbatim>\<open>ExecuteCommand\<close> makes no check of the calling thread. A call issued
  on the game thread queues its task like any other call and then blocks in
  \<^verbatim>\<open>Future.Get()\<close> for ever: however many rounds it waits, the promise is not set, because
  the queued task can only run on the thread that is waiting.
\<close>

theorem game_thread_call_never_returns:
  assumes "map_of (promises g) (next_promise g) = None"
  shows "ExecuteCommand GameThread n e CommandType Params g
           = (None, snd (ExecuteCommand_submit CommandType Params g))
         \<and> tasks (snd (ExecuteCommand_submit CommandType Params g))
             = tasks g @ [(next_promise g, CommandType, Params)]"
  using assms
  by (simp add: ExecuteCommand_def ExecuteCommand_submit_def Let_def AsyncTask_def
                Future_Get_GameThread)

theorem game_thread_call_never_returns_witness:
  "map_of (promises idle_game) (next_promise idle_game) = None
   \<and> fst (ExecuteCommand GameThread 1000 sample_engine ''ping'' [] idle_game) = None"
  using game_thread_call_never_returns[OF idle_game_is_idle(3), of 1000 sample_engine "''ping''" "[]"]
        idle_game_is_idle(3)
  by simp

text \<open>
  Claim C4. When the handler that the chain calls for a command throws, be it one of the
  bridge's handler objects or one of the static families, the task catches the exception
  and answers with the envelope \<^verbatim>\<open>{status:"error", error:<what()>}\<close>; \<^verbatim>\<open>ExecuteCommand\<close>
  returns it to the listener thread, and the game thread has not faulted: the task has
  left the queue and the promise is set.
\<close>

theorem exception_becomes_error_envelope:
  assumes thrown:
      "(\<exists>h. name_in CommandType (handler_names h)
            \<and> HandleCommand e h CommandType Params = Throws w)
       \<or> (\<exists>f. name_in CommandType (family_names f)
               \<and> family_HandleCommand e f CommandType Params = Throws w)"
    and idle: "tasks g = []" "\<not> faulted g" "map_of (promises g) (next_promise g) = None"
  shows "ExecuteCommand_response e CommandType Params
           = Some [(''status'', JString ''error''), (''error'', JString w)]
         \<and> ExecuteCommand ListenerThread (Suc (Suc n)) e CommandType Params g
           = (Some (Serialize e [(''status'', JString ''error''), (''error'', JString w)]),
              g\<lparr>next_promise := Suc (next_promise g), tasks := [],
                promises := (next_promise g,
                   Serialize e [(''status'', JString ''error''), (''error'', JString w)])
                   # promises g\<rparr>)
         \<and> \<not> faulted (snd (ExecuteCommand ListenerThread (Suc (Suc n)) e CommandType Params g))"
proof -
  have run: "run_handler e CommandType Params = Some (Throws w)"
    using thrown
  proof (elim disjE conjE exE)
    fix h
    assume "name_in CommandType (handler_names h)"
      "HandleCommand e h CommandType Params = Throws w"
    then show ?thesis by (simp add: run_handler_Member)
  next
    fix f
    assume "name_in CommandType (family_names f)"
      "family_HandleCommand e f CommandType Params = Throws w"
    then show ?thesis by (simp add: run_handler_Family read_back_def)
  qed
  have resp: "ExecuteCommand_response e CommandType Params
           = Some [(''status'', JString ''error''), (''error'', JString w)]"
    using run by (simp add: ExecuteCommand_response_def SetStringField_def)
  then show ?thesis
    using ExecuteCommand_ListenerThread[OF idle, of n e CommandType Params] idle
    by (simp add: ExecuteCommand_task_def)
qed

theorem exception_becomes_error_envelope_witness:
  "name_in ''spawn_actor'' (handler_names EditorCommands)
   \<and> HandleCommand sample_engine EditorCommands ''spawn_actor'' [] = Throws ''bad allocation''
   \<and> name_in ''import_asset'' (family_names AssetCommands)
   \<and> family_HandleCommand sample_engine AssetCommands ''import_asset'' []
       = Throws ''file not found''
   \<and> tasks idle_game = [] \<and> \<not> faulted idle_game
   \<and> map_of (promises idle_game) (next_promise idle_game) = None
   \<and> ExecuteCommand_response sample_engine ''spawn_actor'' []
       = Some [(''status'', JString ''error''), (''error'', JString ''bad allocation'')]
   \<and> ExecuteCommand_response sample_engine ''import_asset'' []
       = Some [(''status'', JString ''error''), (''error'', JString ''file not found'')]
   \<and> \<not> faulted (snd (ExecuteCommand ListenerThread 2 sample_engine ''import_asset'' [] idle_game))"
proof -
  have a: "(\<exists>h. name_in ''spawn_actor'' (handler_names h)
            \<and> HandleCommand sample_engine h ''spawn_actor'' [] = Throws ''bad allocation'')
       \<or> (\<exists>f. name_in ''spawn_actor'' (family_names f)
               \<and> family_HandleCommand sample_engine f ''spawn_actor'' [] = Throws ''bad allocation'')"
    using sample_names(3) sample_spawn_actor by blast
  have b: "(\<exists>h. name_in ''import_asset'' (handler_names h)
            \<and> HandleCommand sample_engine h ''import_asset'' [] = Throws ''file not found'')
       \<or> (\<exists>f. name_in ''import_asset'' (family_names f)
               \<and> family_HandleCommand sample_engine f ''import_asset'' [] = Throws ''file not found'')"
    using sample_names(4) sample_import_asset by blast
  from exception_becomes_error_envelope[OF a idle_game_is_idle, of 0]
       exception_becomes_error_envelope[OF b idle_game_is_idle, of 0]
       sample_names(3,4) sample_spawn_actor sample_import_asset idle_game_is_idle
  show ?thesis by (simp add: numeral_2_eq_2)
qed

section \<open>The lifecycle of the server\<close>

lemma reset_members:
  "s\<lparr>bIsRunning := False, ServerThread := None, ConnectionSocket := None, ListenerSocket := None\<rparr>
     = initial_bridge"
  by (cases s) (simp add: initial_bridge_def)

lemma StopServer_running:
  assumes "bIsRunning s" and "subsystem \<or> (ConnectionSocket s = None \<and> ListenerSocket s = None)"
  shows "StopServer subsystem s =
           Some (initial_bridge,
                 (case ServerThread s of Some t \<Rightarrow> [Kill t] | None \<Rightarrow> [])
                 @ (case ConnectionSocket s of Some c \<Rightarrow> [DestroySocket c] | None \<Rightarrow> [])
                 @ (case ListenerSocket s of Some l \<Rightarrow> [DestroySocket l] | None \<Rightarrow> [])
                 @ [Log Display ''UnrealMCPBridge: Server stopped''])"
proof -
  have "\<not> ((ConnectionSocket s \<noteq> None \<or> ListenerSocket s \<noteq> None) \<and> \<not> subsystem)"
    using assms(2) by auto
  then show ?thesis
    using assms(1) by (simp add: StopServer_def Let_def reset_members)
qed

lemma StopServer_result:
  assumes "StopServer subsystem s = Some (s', evs)"
  shows "(\<not> bIsRunning s \<and> s' = s) \<or> s' = initial_bridge"
proof (cases "bIsRunning s")
  case False
  then show ?thesis using assms by (simp add: StopServer_def)
next
  case True
  then show ?thesis using assms
    by (simp add: StopServer_def Let_def reset_members split: if_splits)
qed

lemma StartServer_unchanged:
  assumes "StartServer subsystem pf s = Some (s', evs)"
    and "bIsRunning s \<or> \<not> subsystem \<or> CreateSocket pf = None
         \<or> \<not> Bind_result pf \<or> \<not> Listen_result pf"
  shows "s' = s"
proof (cases "bIsRunning s")
  case True
  then show ?thesis using assms(1) by (simp add: StartServer_def)
next
  case running: False
  show ?thesis
  proof (cases "subsystem")
    case False
    then show ?thesis using assms(1) running by (simp add: StartServer_def)
  next
    case sub: True
    show ?thesis
    proof (cases "CreateSocket pf")
      case None
      then show ?thesis using assms(1) running sub by (simp add: StartServer_def)
    next
      case (Some sock)
      then have "\<not> Bind_result pf \<or> \<not> Listen_result pf"
        using assms(2) running sub by simp
      then show ?thesis using assms(1) running sub Some
        by (auto simp: StartServer_def split: if_splits)
    qed
  qed
qed

lemma StartServer_result:
  assumes "StartServer subsystem pf s = Some (s', evs)"
  shows "s' = s \<or> s' = initial_bridge
         \<or> (subsystem \<and> bIsRunning s' \<and> ConnectionSocket s' = ConnectionSocket s)"
proof (cases "bIsRunning s \<or> \<not> subsystem \<or> CreateSocket pf = None
              \<or> \<not> Bind_result pf \<or> \<not> Listen_result pf")
  case True
  with assms have "s' = s" by (rule StartServer_unchanged)
  then show ?thesis by simp
next
  case False
  then obtain sock where sock: "CreateSocket pf = Some sock" by auto
  show ?thesis
  proof (cases "CreateThread pf")
    case (Some t)
    then show ?thesis using assms False sock
      by (auto simp: StartServer_def Let_def)
  next
    case None
    then obtain s2 stopped where
      "StopServer subsystem (s\<lparr>ListenerSocket := Some sock, bIsRunning := True, ServerThread := None\<rparr>)
         = Some (s2, stopped)" "s' = s2"
      using assms False sock
      by (auto simp: StartServer_def Let_def split: option.splits)
    then show ?thesis using StopServer_result by fastforce
  qed
qed

lemma run_calls_invariant:
  assumes "run_calls subsystem s calls = Some s'"
    and "(\<not> bIsRunning s \<longrightarrow> s = initial_bridge) \<and> ConnectionSocket s = None
         \<and> (bIsRunning s \<longrightarrow> subsystem)"
  shows "(\<not> bIsRunning s' \<longrightarrow> s' = initial_bridge) \<and> ConnectionSocket s' = None
         \<and> (bIsRunning s' \<longrightarrow> subsystem)"
  using assms
proof (induction calls arbitrary: s)
  case Nil
  then show ?case by simp
next
  case (Cons c calls)
  show ?case
  proof (cases c)
    case (CallStartServer pf)
    with Cons.prems(1) obtain s1 evs where
      step: "StartServer subsystem pf s = Some (s1, evs)"
      and rest: "run_calls subsystem s1 calls = Some s'"
      by (auto split: option.splits)
    from StartServer_result[OF step] Cons.prems(2)
    have "(\<not> bIsRunning s1 \<longrightarrow> s1 = initial_bridge) \<and> ConnectionSocket s1 = None
         \<and> (bIsRunning s1 \<longrightarrow> subsystem)"
      by (auto simp: initial_bridge_def)
    with rest show ?thesis by (rule Cons.IH)
  next
    case CallStopServer
    with Cons.prems(1) obtain s1 evs where
      step: "StopServer subsystem s = Some (s1, evs)"
      and rest: "run_calls subsystem s1 calls = Some s'"
      by (auto split: option.splits)
    from StopServer_result[OF step] Cons.prems(2)
    have "(\<not> bIsRunning s1 \<longrightarrow> s1 = initial_bridge) \<and> ConnectionSocket s1 = None
         \<and> (bIsRunning s1 \<longrightarrow> subsystem)"
      by (auto simp: initial_bridge_def)
    with rest show ?thesis by (rule Cons.IH)
  qed
qed

lemma lifecycle_invariant:
  assumes "lifecycle subsystem pf calls = Some s"
  shows "(\<not> bIsRunning s \<longrightarrow> s = initial_bridge) \<and> ConnectionSocket s = None
         \<and> (bIsRunning s \<longrightarrow> subsystem)"
proof -
  from assms obtain s0 evs where
    init: "StartServer subsystem pf initial_bridge = Some (s0, evs)"
    and rest: "run_calls subsystem s0 calls = Some s"
    by (auto simp: lifecycle_def Initialize_def split: option.splits)
  from StartServer_result[OF init]
  have "(\<not> bIsRunning s0 \<longrightarrow> s0 = initial_bridge) \<and> ConnectionSocket s0 = None
         \<and> (bIsRunning s0 \<longrightarrow> subsystem)"
    by (auto simp: initial_bridge_def)
  with rest show ?thesis by (rule run_calls_invariant)
qed

lemma sample_running:
  "lifecycle True busy_port [CallStopServer, CallStartServer free_port] =
     Some \<lparr>bIsRunning = True, ListenerSocket = Some 4, ConnectionSocket = None,
            ServerThread = Some 1\<rparr>"
  by (simp add: lifecycle_def Initialize_def StartServer_def StopServer_def initial_bridge_def
                free_port_def busy_port_def)

text \<open>
  Claim C7. After \<^verbatim>\<open>Initialize\<close> and any sequence of calls of \<^verbatim>\<open>StartServer\<close> and
  \<^verbatim>\<open>StopServer\<close>, whatever the platform answered, \<^verbatim>\<open>StopServer\<close> returns without a fault and leaves the bridge not running with no
  listener thread, no connection socket and no listening socket; it has killed the thread
  and destroyed the sockets that were held. A second call changes nothing and does
  nothing, and so does a call when the server is not running, which includes the state
  after a start that failed. The state it leaves is the one \<^verbatim>\<open>Initialize\<close> starts from, so
  a later \<^verbatim>\<open>StartServer\<close> begins afresh.
\<close>

theorem StopServer_idempotent:
  assumes "lifecycle subsystem pf calls = Some s"
  shows "\<exists>s1 evs. StopServer subsystem s = Some (s1, evs)
           \<and> StopServer subsystem s1 = Some (s1, [])
           \<and> \<not> bIsRunning s1 \<and> ServerThread s1 = None
           \<and> ConnectionSocket s1 = None \<and> ListenerSocket s1 = None
           \<and> s1 = initial_bridge
           \<and> (\<not> bIsRunning s \<longrightarrow> s1 = s \<and> evs = [])
           \<and> (\<forall>t. ServerThread s = Some t \<longrightarrow> Kill t \<in> set evs)
           \<and> (\<forall>c. ConnectionSocket s = Some c \<longrightarrow> DestroySocket c \<in> set evs)
           \<and> (\<forall>l. ListenerSocket s = Some l \<longrightarrow> DestroySocket l \<in> set evs)"
proof (cases "bIsRunning s")
  case False
  with lifecycle_invariant[OF assms] have "s = initial_bridge" by simp
  then show ?thesis by (simp add: StopServer_def initial_bridge_def)
next
  case True
  have "subsystem \<or> (ConnectionSocket s = None \<and> ListenerSocket s = None)"
    using lifecycle_invariant[OF assms] True by simp
  from StopServer_running[OF True this] True show ?thesis
    by (auto simp: StopServer_def initial_bridge_def)
qed

theorem StopServer_idempotent_witness:
  "lifecycle True busy_port [CallStopServer, CallStartServer free_port] =
     Some \<lparr>bIsRunning = True, ListenerSocket = Some 4, ConnectionSocket = None,
            ServerThread = Some 1\<rparr>
   \<and> StopServer True \<lparr>bIsRunning = True, ListenerSocket = Some 4, ConnectionSocket = None,
                       ServerThread = Some 1\<rparr>
       = Some (initial_bridge,
               [Kill 1, DestroySocket 4, Log Display ''UnrealMCPBridge: Server stopped''])
   \<and> StopServer True initial_bridge = Some (initial_bridge, [])"
proof -
  from StopServer_idempotent[OF sample_running] obtain s1 evs where
    "StopServer True \<lparr>bIsRunning = True, ListenerSocket = Some 4, ConnectionSocket = None,
                      ServerThread = Some 1\<rparr> = Some (s1, evs)"
    "StopServer True s1 = Some (s1, [])" "s1 = initial_bridge"
    by blast
  moreover have "StopServer True \<lparr>bIsRunning = True, ListenerSocket = Some 4,
                      ConnectionSocket = None, ServerThread = Some 1\<rparr>
       = Some (initial_bridge,
               [Kill 1, DestroySocket 4, Log Display ''UnrealMCPBridge: Server stopped''])"
    by (simp add: StopServer_def Let_def initial_bridge_def)
  ultimately show ?thesis using sample_running by simp
qed

lemma StartServer_success:
  assumes "\<not> bIsRunning s" and "subsystem" and "CreateSocket pf = Some sock"
    and "Bind_result pf" and "Listen_result pf" and "CreateThread pf = Some t"
  shows "StartServer subsystem pf s =
           Some (s\<lparr>ListenerSocket := Some sock, bIsRunning := True, ServerThread := Some t\<rparr>,
                 [SetReuseAddr sock, SetNonBlocking sock, Bind sock, Listen sock,
                  Log Display ''UnrealMCPBridge: Server started on %s:%d''])"
  using assms by (simp add: StartServer_def)



section \<open>The fallback of the command families\<close>





text \<open>
  A name can also close the string and add fields of its own: the text below reads as an
  object whose \<^verbatim>\<open>success\<close> is true.
\<close>

lemma asset_fallback_injected_fields:
  "FUnrealMCPAssetCommands_HandleCommand sample_engine ''x\",\"success\":true,\"e\":\"'' []
     = Returns ''{\"success\":false,\"error\":\"Unknown asset command: x\",\"success\":true,\"e\":\"\"}''
   \<and> Deserialize
       ''{\"success\":false,\"error\":\"Unknown asset command: x\",\"success\":true,\"e\":\"\"}''
     = Some [(''success'', JBool True), (''error'', JString ''Unknown asset command: x''),
             (''e'', JString [])]"
  by code_simp




end
